theory Spec2Isabelle
  imports Complex_Main "HOL-Library.Word" "HOL-Library.Multiset"
begin

section \<open>Data model\<close>

text \<open>
  The repository serves a YOLO object detector over HTTP.  \<^verbatim>\<open>src/app.py\<close> holds the
  helpers (decoding, prediction, annotation, censoring) and
  \<^verbatim>\<open>src/router/detection_post.py\<close> the three endpoints.  PIL, numpy, OpenCV, pandas'
  sort and JSON writer and the YOLO model are external collaborators: what they compute
  is taken as a parameter, what the repository does with their results is modelled here.

  Floats of the source (box coordinates, confidences, thresholds) are the real numbers
  they denote; rounding of float arithmetic is not modelled.
\<close>

type_synonym byte = "8 word"
type_synonym bytes = "byte list"

text \<open>A PIL image in RGB mode: rows of pixels, \<open>img ! y ! x\<close> is the pixel in row \<open>y\<close>, column
  \<open>x\<close>.  \<open>np.array(image)\<close> has the same layout, shape (height, width, 3).\<close>

type_synonym pixel = "byte \<times> byte \<times> byte"
type_synonym image = "pixel list list"
type_synonym colour = "nat \<times> nat \<times> nat"

text \<open>The \<open>fill\<close> argument of \<open>ImageDraw.text\<close>: a colour tuple or a colour name.\<close>

datatype fill = FillRGB colour | FillName string
type_synonym bbox = "real \<times> real \<times> real \<times> real"

datatype error =
    UnidentifiedImageError
  | InferenceError
  | NameError string
  | AttributeError
  | TypeError
  | OSError
  | CvError
  | ValueError

text \<open>The keyword arguments of \<open>model.predict\<close> as both \<open>get_model_predict\<close> and
  \<open>get_model_segment\<close> pass them.\<close>

record predict_args =
  imgsz :: int
  source :: image
  conf :: real
  save :: bool
  augment :: bool
  flipud :: real
  fliplr :: real
  mosaic :: real

text \<open>One box of \<open>results[0].boxes\<close>: \<open>xyxy\<close>, \<open>conf\<close> and \<open>cls\<close> (a float tensor).\<close>

record raw_box =
  box_xyxy :: bbox
  box_conf :: real
  box_cls :: real

text \<open>The YOLO model: its \<open>predict\<close> operation \<open>yolo_predict\<close> (the boxes of \<open>results[0]\<close>, or a failure)
  and the class-id to name dictionary \<open>model.model.names\<close>, \<open>yolo_names\<close>.\<close>

record yolo =
  yolo_predict :: "predict_args \<Rightarrow> error + raw_box list"
  yolo_names :: "int \<rightharpoonup> string"

text \<open>A cell of the \<open>name\<close> column: \<open>Series.replace\<close> puts the label where the class id is a
  key of the dictionary and leaves the integer otherwise.\<close>

datatype cell = IntCell int | StrCell string

text \<open>One row of the predictions DataFrame; the column \<open>class\<close> is \<open>cls\<close> here.\<close>

record detection =
  xmin :: real
  ymin :: real
  xmax :: real
  ymax :: real
  confidence :: real
  cls :: int
  name :: cell

type_synonym dataframe = "detection list"

datatype json =
    JNull
  | JString string
  | JNumber real
  | JArray "json list"
  | JObject "(string \<times> json) list"

type_synonym font = "string \<times> nat"

text \<open>A \<open>StreamingResponse\<close>: its body and its media type.\<close>

record response =
  content :: bytes
  media_type :: string

text \<open>The library operations the program calls.  \<open>sort_values\<close> is
  \<open>DataFrame.sort_values\<close> with its arguments \<open>by\<close> and \<open>ascending\<close>; the sorting routine
  behind it (pandas' default, an unstable quicksort) decides the order of rows with
  equal keys.\<close>

record extern =
  image_open :: "bytes \<Rightarrow> error + image"
  image_save :: "image \<Rightarrow> string \<Rightarrow> nat \<Rightarrow> bytes"
  gaussian_blur :: "image \<Rightarrow> nat \<times> nat \<Rightarrow> real \<Rightarrow> error + image"
  truetype :: "string \<Rightarrow> nat \<Rightarrow> error + font"
  draw_text :: "image \<Rightarrow> int \<times> int \<Rightarrow> string \<Rightarrow> font \<Rightarrow> fill \<Rightarrow> image"
  box_label :: "image \<Rightarrow> bbox \<Rightarrow> string \<Rightarrow> colour \<Rightarrow> image"
  colors :: "int \<Rightarrow> bool \<Rightarrow> colour"
  json_float :: "real \<Rightarrow> real"
  sort_values :: "dataframe \<Rightarrow> string list \<Rightarrow> bool \<Rightarrow> dataframe"

text \<open>A value of the module namespace of \<^verbatim>\<open>app.py\<close>: a loaded model, or anything else
  (an imported module, a class, a function).\<close>

datatype gval = Model yolo | Other

type_synonym globals = "(string \<times> gval) list"

text \<open>A computation that may call the model: the calls of \<open>model.predict\<close> it made, in
  order, and its result.\<close>

type_synonym 'a traced = "predict_args list \<times> (error + 'a)"

section \<open>Helpers of app.py\<close>

text \<open>Python's \<open>int(x)\<close> on a float, also \<open>astype(int)\<close>: truncation toward zero.\<close>

definition py_int :: "real \<Rightarrow> int" where
  "py_int x = (if 0 \<le> x then \<lfloor>x\<rfloor> else \<lceil>x\<rceil>)"

definition get_image_from_bytes :: "extern \<Rightarrow> bytes \<Rightarrow> error + image" where
  "get_image_from_bytes lib binary_image = image_open lib binary_image"

definition get_bytes_from_image :: "extern \<Rightarrow> image \<Rightarrow> bytes" where
  "get_bytes_from_image lib img = image_save lib img ''JPEG'' 85"

definition transform_predict_to_df :: "raw_box list \<Rightarrow> (int \<rightharpoonup> string) \<Rightarrow> dataframe" where
  "transform_predict_to_df results labeles_dict =
     map (\<lambda>b. case box_xyxy b of (x1, y1, x2, y2) \<Rightarrow>
            let c = py_int (box_cls b) in
            \<lparr>xmin = x1, ymin = y1, xmax = x2, ymax = y2,
             confidence = box_conf b,
             cls = c,
             name = (case labeles_dict c of Some s \<Rightarrow> StrCell s | None \<Rightarrow> IntCell c)\<rparr>)
       results"

definition get_model_predict ::
  "yolo \<Rightarrow> image \<Rightarrow> bool \<Rightarrow> int \<Rightarrow> real \<Rightarrow> bool \<Rightarrow> dataframe traced" where
  "get_model_predict model input_image save' image_size conf' augment' =
     (let args = \<lparr>imgsz = image_size, source = input_image, conf = conf', save = save',
                  augment = augment', flipud = 0, fliplr = 0, mosaic = 0\<rparr>
      in ([args],
          case yolo_predict model args of
            Inl e \<Rightarrow> Inl e
          | Inr predictions \<Rightarrow> Inr (transform_predict_to_df predictions (yolo_names model))))"

definition get_model_segment ::
  "yolo \<Rightarrow> image \<Rightarrow> bool \<Rightarrow> int \<Rightarrow> real \<Rightarrow> bool \<Rightarrow> dataframe traced" where
  "get_model_segment model input_image save' image_size conf' augment' =
     (let args = \<lparr>imgsz = image_size, source = input_image, conf = conf', save = save',
                  augment = augment', flipud = 0, fliplr = 0, mosaic = 0\<rparr>
      in ([args],
          case yolo_predict model args of
            Inl e \<Rightarrow> Inl e
          | Inr predictions \<Rightarrow> Inr (transform_predict_to_df predictions (yolo_names model))))"

text \<open>The names bound by the top-level statements of \<^verbatim>\<open>app.py\<close>, in order: the
  imports, the one model \<open>model_sample_detect = YOLO(...)\<close> (here \<open>m\<close>), and the functions.\<close>

definition app_globals :: "yolo \<Rightarrow> globals" where
  "app_globals m =
     [(''Image'', Other), (''io'', Other), (''pd'', Other), (''np'', Other), (''cv2'', Other),
      (''Optional'', Other), (''YOLO'', Other), (''Annotator'', Other), (''colors'', Other),
      (''model_sample_detect'', Model m),
      (''get_image_from_bytes'', Other), (''get_bytes_from_image'', Other),
      (''transform_predict_to_df'', Other), (''get_model_predict'', Other),
      (''get_model_segment'', Other), (''add_bboxs_on_img'', Other),
      (''detect_sample_model'', Other), (''censor_objects'', Other),
      (''segment_sample_model'', Other)]"

text \<open>Reading a global name: an unbound name raises \<open>NameError\<close> (the name read
  below that may be unbound is no builtin either).\<close>

definition load_global :: "globals \<Rightarrow> string \<Rightarrow> error + gval" where
  "load_global g n = (case map_of g n of None \<Rightarrow> Inl (NameError n) | Some v \<Rightarrow> Inr v)"

definition detect_sample_model :: "globals \<Rightarrow> image \<Rightarrow> dataframe traced" where
  "detect_sample_model g input_image =
     (case load_global g ''model_sample_detect'' of
        Inl e \<Rightarrow> ([], Inl e)
      | Inr Other \<Rightarrow> ([], Inl AttributeError)
      | Inr (Model m) \<Rightarrow> get_model_predict m input_image False 768 (1/2) False)"

definition segment_sample_model :: "globals \<Rightarrow> image \<Rightarrow> dataframe traced" where
  "segment_sample_model g input_image =
     (case load_global g ''model_sample_segment'' of
        Inl e \<Rightarrow> ([], Inl e)
      | Inr Other \<Rightarrow> ([], Inl AttributeError)
      | Inr (Model m) \<Rightarrow> get_model_segment m input_image True 640 (1/4) False)"

section \<open>Annotation\<close>

text \<open>Python's \<open>str\<close> of an integer, as an f-string prints it.\<close>

fun str_nat :: "nat \<Rightarrow> string" where
  "str_nat n =
     (if n < 10 then [''0123456789'' ! n]
      else str_nat (n div 10) @ [''0123456789'' ! (n mod 10)])"

declare str_nat.simps [simp del]

definition str_int :: "int \<Rightarrow> string" where
  "str_int i = (if i < 0 then ''-'' @ str_nat (nat (- i)) else str_nat (nat i))"

definition str_cell :: "cell \<Rightarrow> string" where
  "str_cell c = (case c of StrCell s \<Rightarrow> s | IntCell i \<Rightarrow> str_int i)"

text \<open>The label of one row: \<open>f"{row['name']}: {int(row['confidence']*100)}%"\<close>.\<close>

definition label_text :: "detection \<Rightarrow> string" where
  "label_text row = str_cell (name row) @ '': '' @ str_int (py_int (confidence row * 100)) @ ''%''"

text \<open>The arguments of the successive \<open>annotator.box_label\<close> calls of the loop of
  \<open>add_bboxs_on_img\<close>: box, text and colour, one call per row of the frame that
  \<open>predict.sort_values(by=['xmin'], ascending=True)\<close> returns, in the order of its rows.\<close>

definition box_label_calls :: "extern \<Rightarrow> dataframe \<Rightarrow> (bbox \<times> string \<times> colour) list" where
  "box_label_calls lib predict =
     map (\<lambda>row. ((xmin row, ymin row, xmax row, ymax row),
                 label_text row,
                 colors lib (cls row) True))
       (sort_values lib predict [''xmin''] True)"

definition add_bboxs_on_img :: "extern \<Rightarrow> image \<Rightarrow> dataframe \<Rightarrow> image" where
  "add_bboxs_on_img lib img predict =
     foldl (\<lambda>annotator (bbox, text, color). box_label lib annotator bbox text color)
       img (box_label_calls lib predict)"

section \<open>Censoring\<close>

text \<open>A numpy slice \<open>start:stop\<close> on an axis of length \<open>n\<close>: a negative bound counts
  from the end, and both bounds are then clipped to \<open>0..n\<close>.  The slice selects the
  indices from the first bound up to, not including, the second.\<close>

definition slice_bound :: "int \<Rightarrow> nat \<Rightarrow> nat" where
  "slice_bound i n = (if i < 0 then nat (max (i + int n) 0) else nat (min i (int n)))"

definition in_slice :: "int \<Rightarrow> int \<Rightarrow> nat \<Rightarrow> nat \<Rightarrow> bool" where
  "in_slice start stop n i \<longleftrightarrow> slice_bound start n \<le> i \<and> i < slice_bound stop n"

text \<open>\<open>a[y1:y2, x1:x2]\<close>, read.\<close>

definition get_slice :: "image \<Rightarrow> int \<Rightarrow> int \<Rightarrow> int \<Rightarrow> int \<Rightarrow> image" where
  "get_slice a y1 y2 x1 x2 =
     map (\<lambda>row. take (slice_bound x2 (length row) - slice_bound x1 (length row))
                  (drop (slice_bound x1 (length row)) row))
       (take (slice_bound y2 (length a) - slice_bound y1 (length a))
          (drop (slice_bound y1 (length a)) a))"

text \<open>\<open>a[y1:y2, x1:x2] = v\<close>, written: the element at row \<open>i\<close>, column \<open>j\<close> of the slice is
  replaced by \<open>v i j\<close>, every other element is kept.\<close>

definition set_slice ::
  "image \<Rightarrow> int \<Rightarrow> int \<Rightarrow> int \<Rightarrow> int \<Rightarrow> (nat \<Rightarrow> nat \<Rightarrow> pixel) \<Rightarrow> image" where
  "set_slice a y1 y2 x1 x2 v =
     map (\<lambda>i. map (\<lambda>j. if in_slice y1 y2 (length a) i \<and> in_slice x1 x2 (length (a ! i)) j
                       then v i j else a ! i ! j)
                [0..<length (a ! i)])
       [0..<length a]"

text \<open>\<open>[:, :, ::-1]\<close>: the channels of every pixel reversed (RGB to BGR and back).\<close>

definition reverse_channels :: "image \<Rightarrow> image" where
  "reverse_channels a = map (map (\<lambda>(c0, c1, c2). (c2, c1, c0))) a"

text \<open>The body of the loop of \<open>censor_objects\<close> for one row.  \<open>cv2.GaussianBlur\<close> may
  fail (it refuses an empty region); its result is written back when it has the shape
  of the region, as OpenCV returns it.\<close>

definition censor_row :: "extern \<Rightarrow> string \<Rightarrow> image \<Rightarrow> detection \<Rightarrow> error + image" where
  "censor_row lib method open_cv_image row =
     (let x1 = py_int (xmin row); y1 = py_int (ymin row);
          x2 = py_int (xmax row); y2 = py_int (ymax row)
      in if method = ''blur'' then
           (let region = get_slice open_cv_image y1 y2 x1 x2
            in case gaussian_blur lib region (0, 0) 10 of
                 Inl e \<Rightarrow> Inl e
               | Inr blurred \<Rightarrow>
                   if map length blurred = map length region
                   then Inr (set_slice open_cv_image y1 y2 x1 x2
                          (\<lambda>i j. blurred ! (i - slice_bound y1 (length open_cv_image))
                                         ! (j - slice_bound x1 (length (open_cv_image ! i)))))
                   else Inl ValueError)
         else if method = ''mask'' then
           Inr (set_slice open_cv_image y1 y2 x1 x2 (\<lambda>i j. (0, 0, 0)))
         else Inr open_cv_image)"

fun censor_rows :: "extern \<Rightarrow> string \<Rightarrow> image \<Rightarrow> dataframe \<Rightarrow> error + image" where
  "censor_rows lib method open_cv_image [] = Inr open_cv_image"
| "censor_rows lib method open_cv_image (row # rows) =
     (case censor_row lib method open_cv_image row of
        Inl e \<Rightarrow> Inl e
      | Inr a \<Rightarrow> censor_rows lib method a rows)"

definition censor_objects :: "extern \<Rightarrow> image \<Rightarrow> dataframe \<Rightarrow> string \<Rightarrow> error + image" where
  "censor_objects lib img predictions method =
     (case censor_rows lib method (reverse_channels img) predictions of
        Inl e \<Rightarrow> Inl e
      | Inr open_cv_image \<Rightarrow> Inr (reverse_channels open_cv_image))"

section \<open>Endpoints of router/detection_post.py\<close>

text \<open>\<open>', '.join(objects)\<close>: every item has to be a string.\<close>

fun str_join :: "string \<Rightarrow> string list \<Rightarrow> string" where
  "str_join sep [] = []"
| "str_join sep [x] = x"
| "str_join sep (x # y # ys) = x @ sep @ str_join sep (y # ys)"

fun cell_strings :: "cell list \<Rightarrow> error + string list" where
  "cell_strings [] = Inr []"
| "cell_strings (IntCell i # cs) = Inl TypeError"
| "cell_strings (StrCell s # cs) =
     (case cell_strings cs of Inl e \<Rightarrow> Inl e | Inr ss \<Rightarrow> Inr (s # ss))"

definition join_cells :: "string \<Rightarrow> cell list \<Rightarrow> error + string" where
  "join_cells sep cs = (case cell_strings cs of Inl e \<Rightarrow> Inl e | Inr ss \<Rightarrow> Inr (str_join sep ss))"

definition json_cell :: "cell \<Rightarrow> json" where
  "json_cell c = (case c of StrCell s \<Rightarrow> JString s | IntCell i \<Rightarrow> JNumber (of_int i))"

text \<open>\<open>json.loads(detect_res.to_json(orient='records'))\<close> on the columns \<open>name\<close> and
  \<open>confidence\<close>: one object per row, in row order.  \<open>json_float\<close> is what a float becomes
  on the way through pandas' writer and \<open>json.loads\<close>.\<close>

definition to_json_records :: "extern \<Rightarrow> dataframe \<Rightarrow> json" where
  "to_json_records lib detect_res =
     JArray (map (\<lambda>row. JObject [(''name'', json_cell (name row)),
                                 (''confidence'', JNumber (json_float lib (confidence row)))])
               detect_res)"

definition img_object_detection_to_json ::
  "extern \<Rightarrow> globals \<Rightarrow> bytes \<Rightarrow> ((string \<times> json) list) traced" where
  "img_object_detection_to_json lib g file =
     (let result = [(''detect_objects'', JNull)] in
      case get_image_from_bytes lib file of
        Inl e \<Rightarrow> ([], Inl e)
      | Inr input_image \<Rightarrow>
          (case detect_sample_model g input_image of
             (calls, Inl e) \<Rightarrow> (calls, Inl e)
           | (calls, Inr predict) \<Rightarrow>
               if length predict = 0 then
                 (calls, Inr [(''message'', JString ''No objects detected.'')])
               else
                 (let detect_res = predict;
                      objects = map name detect_res
                  in case join_cells '', '' objects of
                       Inl e \<Rightarrow> (calls, Inl e)
                     | Inr joined \<Rightarrow>
                         (calls, Inr [(''detect_objects_names'', JString joined),
                                      (''detect_objects'', to_json_records lib detect_res)]))))"

definition img_object_detection_to_img :: "extern \<Rightarrow> globals \<Rightarrow> bytes \<Rightarrow> response traced" where
  "img_object_detection_to_img lib g file =
     (case get_image_from_bytes lib file of
        Inl e \<Rightarrow> ([], Inl e)
      | Inr input_image \<Rightarrow>
          (case detect_sample_model g input_image of
             (calls, Inl e) \<Rightarrow> (calls, Inl e)
           | (calls, Inr predict) \<Rightarrow>
               if length predict = 0 then
                 (case truetype lib ''arial.ttf'' 15 of
                    Inl e \<Rightarrow> (calls, Inl e)
                  | Inr font \<Rightarrow>
                      (let text = ''NO OBJECTS DETECTED.'';
                           x = 20; y = 20;
                           fill_color = FillRGB (255, 165, 0);
                           outline_color = FillName ''black'';
                           outlined =
                             foldl (\<lambda>draw adj.
                                 draw_text lib
                                   (draw_text lib
                                      (draw_text lib
                                         (draw_text lib draw (x + adj, y) text font outline_color)
                                         (x, y + adj) text font outline_color)
                                      (x + adj, y + adj) text font outline_color)
                                   (x - adj, y - adj) text font outline_color)
                               input_image [-2, -1, 0, 1, 2];
                           banner = draw_text lib outlined (x, y) text font fill_color
                       in (calls, Inr \<lparr>content = get_bytes_from_image lib banner,
                                       media_type = ''image/jpeg''\<rparr>)))
               else
                 (let final_image = add_bboxs_on_img lib input_image predict
                  in (calls, Inr \<lparr>content = get_bytes_from_image lib final_image,
                                  media_type = ''image/jpeg''\<rparr>))))"

definition img_object_detection_to_censored_img ::
  "extern \<Rightarrow> globals \<Rightarrow> bytes \<Rightarrow> response traced" where
  "img_object_detection_to_censored_img lib g file =
     (case get_image_from_bytes lib file of
        Inl e \<Rightarrow> ([], Inl e)
      | Inr input_image \<Rightarrow>
          (case detect_sample_model g input_image of
             (calls, Inl e) \<Rightarrow> (calls, Inl e)
           | (calls, Inr predict) \<Rightarrow>
               if length predict = 0 then
                 (case truetype lib ''arial.ttf'' 15 of
                    Inl e \<Rightarrow> (calls, Inl e)
                  | Inr font \<Rightarrow>
                      (let text = ''NO OBJECTS DETECTED.'';
                           x = 20; y = 20;
                           fill_color = FillRGB (255, 165, 0);
                           outline_color = FillName ''black'';
                           outlined =
                             foldl (\<lambda>draw adj.
                                 draw_text lib
                                   (draw_text lib
                                      (draw_text lib
                                         (draw_text lib draw (x + adj, y) text font outline_color)
                                         (x, y + adj) text font outline_color)
                                      (x + adj, y + adj) text font outline_color)
                                   (x - adj, y - adj) text font outline_color)
                               input_image [-2, -1, 0, 1, 2];
                           banner = draw_text lib outlined (x, y) text font fill_color
                       in (calls, Inr \<lparr>content = get_bytes_from_image lib banner,
                                       media_type = ''image/jpeg''\<rparr>)))
               else
                 (case censor_objects lib input_image predict ''blur'' of
                    Inl e \<Rightarrow> (calls, Inl e)
                  | Inr censored_image \<Rightarrow>
                      (calls, Inr \<lparr>content = get_bytes_from_image lib censored_image,
                                   media_type = ''image/jpeg''\<rparr>))))"

section \<open>Notions used in the statements\<close>

text \<open>Pixel \<open>(x, y)\<close> (column \<open>x\<close>, row \<open>y\<close>) lies in the box of a row of the frame, the
  coordinates truncated as \<open>censor_objects\<close> truncates them.\<close>

definition in_box :: "detection \<Rightarrow> nat \<Rightarrow> nat \<Rightarrow> bool" where
  "in_box d x y \<longleftrightarrow>
     py_int (xmin d) \<le> int x \<and> int x < py_int (xmax d) \<and>
     py_int (ymin d) \<le> int y \<and> int y < py_int (ymax d)"

text \<open>No truncated coordinate of the box is negative.\<close>

definition nonneg_box :: "detection \<Rightarrow> bool" where
  "nonneg_box d \<longleftrightarrow>
     0 \<le> py_int (xmin d) \<and> 0 \<le> py_int (ymin d) \<and> 0 \<le> py_int (xmax d) \<and> 0 \<le> py_int (ymax d)"

text \<open>The label as the specification words it: the percentage rounded to the nearest
  integer.  It is compared with \<open>label_text\<close>, the label of the source.\<close>

definition label_text_rounded :: "detection \<Rightarrow> string" where
  "label_text_rounded row =
     str_cell (name row) @ '': '' @ str_int (round (confidence row * 100)) @ ''%''"

text \<open>What \<open>sort_values(by=['xmin'], ascending=True)\<close> promises of its result for a
  frame: the same rows, each as often as in the frame, in ascending order of \<open>xmin\<close>.
  Nothing is promised about the order of rows with equal \<open>xmin\<close>.\<close>

definition sorts_by_xmin :: "dataframe \<Rightarrow> dataframe \<Rightarrow> bool" where
  "sorts_by_xmin df sorted_df \<longleftrightarrow> mset sorted_df = mset df \<and> sorted (map xmin sorted_df)"

text \<open>The number a string of decimal digits denotes.\<close>

definition decimal_value :: "string \<Rightarrow> nat" where
  "decimal_value s = foldl (\<lambda>acc c. 10 * acc + (of_char c - 48)) 0 s"

section \<open>Concrete inputs\<close>

text \<open>A 4 by 3 image, a library whose operations are simple enough to evaluate, a model
  that returns given boxes, and the frame of two detections it yields.  The first
  detection is the one further right: model order and \<open>xmin\<close> order differ.  The sort
  of the library is not stable: it reverses rows of equal \<open>xmin\<close>.\<close>

definition demo_image :: image where
  "demo_image = [[(1, 2, 3), (4, 5, 6), (7, 8, 9), (10, 11, 12)],
                 [(13, 14, 15), (16, 17, 18), (19, 20, 21), (22, 23, 24)],
                 [(25, 26, 27), (28, 29, 30), (31, 32, 33), (34, 35, 36)]]"

definition demo_lib :: extern where
  "demo_lib =
     \<lparr>image_open = (\<lambda>bs. if bs = [] then Inl UnidentifiedImageError else Inr demo_image),
      image_save = (\<lambda>img fmt quality. concat (map (map fst) img)),
      gaussian_blur = (\<lambda>region ksize sigma.
         if concat region = [] then Inl CvError else Inr (map (map (\<lambda>p. (7, 7, 7))) region)),
      truetype = (\<lambda>path size. Inr (path, size)),
      draw_text = (\<lambda>img pos txt fnt fl. img),
      box_label = (\<lambda>img box txt col. img),
      colors = (\<lambda>i bgr. (255, 0, 0)),
      json_float = (\<lambda>x. x),
      sort_values = (\<lambda>df by ascending.
         if by = [''xmin''] \<and> ascending then rev (sort_key (\<lambda>row. - xmin row) df) else df)\<rparr>"

definition demo_boxes :: "raw_box list" where
  "demo_boxes =
     [\<lparr>box_xyxy = (2, 0, 4, 2), box_conf = 567 / 1000, box_cls = 1\<rparr>,
      \<lparr>box_xyxy = (0, 1, 1, 3), box_conf = 92 / 100, box_cls = 0\<rparr>]"

definition demo_model :: "raw_box list \<Rightarrow> yolo" where
  "demo_model boxes =
     \<lparr>yolo_predict = (\<lambda>args. Inr boxes),
      yolo_names = [0 \<mapsto> ''person'', 1 \<mapsto> ''car'']\<rparr>"

text \<open>A frame in which two detections share the left edge \<open>xmin = 0\<close>.\<close>

definition demo_ties :: dataframe where
  "demo_ties =
     [\<lparr>xmin = 2, ymin = 0, xmax = 4, ymax = 2, confidence = 567 / 1000, cls = 1,
       name = StrCell ''car''\<rparr>,
      \<lparr>xmin = 0, ymin = 0, xmax = 1, ymax = 1, confidence = 92 / 100, cls = 0,
       name = StrCell ''person''\<rparr>,
      \<lparr>xmin = 0, ymin = 2, xmax = 1, ymax = 3, confidence = 8 / 10, cls = 0,
       name = StrCell ''person''\<rparr>]"

definition demo_frame :: dataframe where
  "demo_frame =
     [\<lparr>xmin = 2, ymin = 0, xmax = 4, ymax = 2, confidence = 567 / 1000, cls = 1,
       name = StrCell ''car''\<rparr>,
      \<lparr>xmin = 0, ymin = 1, xmax = 1, ymax = 3, confidence = 92 / 100, cls = 0,
       name = StrCell ''person''\<rparr>]"

section \<open>Shared lemmas\<close>

lemma reverse_channels_twice: "reverse_channels (reverse_channels a) = a"
  by (simp add: reverse_channels_def map_idI split_beta)

lemma length_reverse_channels: "length (reverse_channels a) = length a"
  by (simp add: reverse_channels_def)

lemma reverse_channels_nth:
  "y < length a \<Longrightarrow> reverse_channels a ! y = map (\<lambda>(c0, c1, c2). (c2, c1, c0)) (a ! y)"
  by (simp add: reverse_channels_def)

lemma detect_sample_model_app:
  "detect_sample_model (app_globals m) input_image =
     get_model_predict m input_image False 768 (1/2) False"
  by (simp add: detect_sample_model_def load_global_def app_globals_def)

lemma demo_decode: "get_image_from_bytes demo_lib [1] = Inr demo_image"
  by (simp add: get_image_from_bytes_def demo_lib_def)

lemma demo_detect:
  "detect_sample_model (app_globals (demo_model bs)) demo_image =
     ([\<lparr>imgsz = 768, source = demo_image, conf = 1/2, save = False, augment = False,
        flipud = 0, fliplr = 0, mosaic = 0\<rparr>],
      Inr (transform_predict_to_df bs [0 \<mapsto> ''person'', 1 \<mapsto> ''car'']))"
  by (simp add: detect_sample_model_app get_model_predict_def demo_model_def)

lemma demo_frame_eq:
  "transform_predict_to_df demo_boxes [0 \<mapsto> ''person'', 1 \<mapsto> ''car''] = demo_frame"
  by (simp add: transform_predict_to_df_def demo_boxes_def py_int_def demo_frame_def)

lemma demo_no_boxes: "transform_predict_to_df [] [0 \<mapsto> ''person'', 1 \<mapsto> ''car''] = []"
  by (simp add: transform_predict_to_df_def)

lemma demo_frame_nonempty: "demo_frame \<noteq> []"
  by (simp add: demo_frame_def)

section \<open>JSON mode\<close>

lemma cell_strings_StrCell: "cell_strings (map StrCell ns) = Inr ns"
  by (induction ns) simp_all

lemma to_json_records_strings:
  "map name predict = map StrCell ns \<Longrightarrow>
   to_json_records lib predict =
     JArray (map2 (\<lambda>n row. JObject [(''name'', JString n),
                                     (''confidence'', JNumber (json_float lib (confidence row)))])
               ns predict)"
proof (induction predict arbitrary: ns)
  case Nil
  then show ?case by (simp add: to_json_records_def)
next
  case (Cons row rows)
  then obtain n ns' where ns: "ns = n # ns'" "name row = StrCell n" "map name rows = map StrCell ns'"
    by (cases ns) auto
  from Cons.IH [OF ns(3)] ns show ?case
    by (simp add: to_json_records_def json_cell_def)
qed

text \<open>
  Claim C1.  When the image decodes and the detector returns a non-empty frame whose class
  names are the strings \<open>ns\<close> (in the order the model gave the detections), the JSON
  endpoint answers with exactly two fields: \<open>detect_objects_names\<close>, the names joined by a
  comma and a space in that order, and \<open>detect_objects\<close>, one record of name and
  confidence per detection in the same order.  No sorting by \<open>xmin\<close> takes part.
\<close>

theorem json_names_in_detection_order:
  assumes "get_image_from_bytes lib file = Inr input_image"
      and "detect_sample_model g input_image = (calls, Inr predict)"
      and "predict \<noteq> []"
      and "map name predict = map StrCell ns"
  shows "snd (img_object_detection_to_json lib g file) =
           Inr [(''detect_objects_names'', JString (str_join '', '' ns)),
                (''detect_objects'',
                 JArray (map2 (\<lambda>n row. JObject [(''name'', JString n),
                              (''confidence'', JNumber (json_float lib (confidence row)))])
                           ns predict))]"
  using assms
  by (simp add: img_object_detection_to_json_def Let_def join_cells_def
        cell_strings_StrCell to_json_records_strings)

text \<open>The theorem at the concrete frame: the car (\<open>xmin = 2\<close>) was detected first and stays
  first, although the person (\<open>xmin = 0\<close>) is further left.\<close>

theorem json_names_in_detection_order_witness:
  "get_image_from_bytes demo_lib [1] = Inr demo_image \<and>
   detect_sample_model (app_globals (demo_model demo_boxes)) demo_image =
     ([\<lparr>imgsz = 768, source = demo_image, conf = 1/2, save = False, augment = False,
        flipud = 0, fliplr = 0, mosaic = 0\<rparr>],
      Inr demo_frame) \<and>
   demo_frame \<noteq> [] \<and>
   map name demo_frame = map StrCell [''car'', ''person''] \<and>
   map xmin demo_frame = [2, 0] \<and>
   snd (img_object_detection_to_json demo_lib (app_globals (demo_model demo_boxes)) [1]) =
     Inr [(''detect_objects_names'', JString ''car, person''),
          (''detect_objects'',
           JArray [JObject [(''name'', JString ''car''), (''confidence'', JNumber (567 / 1000))],
                   JObject [(''name'', JString ''person''), (''confidence'', JNumber (92 / 100))]])]"
proof -
  have names: "map name demo_frame = map StrCell [''car'', ''person'']"
    and xs: "map xmin demo_frame = [2, 0]"
    by (simp_all add: demo_frame_def)
  have records: "map2 (\<lambda>n row. JObject [(''name'', JString n),
                    (''confidence'', JNumber (json_float demo_lib (confidence row)))])
                  [''car'', ''person''] demo_frame =
      [JObject [(''name'', JString ''car''), (''confidence'', JNumber (567 / 1000))],
       JObject [(''name'', JString ''person''), (''confidence'', JNumber (92 / 100))]]"
    by (simp add: demo_frame_def demo_lib_def)
  show ?thesis
    using json_names_in_detection_order [of demo_lib "[1]" demo_image
        "app_globals (demo_model demo_boxes)" _ demo_frame "[''car'', ''person'']"]
    by (simp add: demo_decode demo_detect demo_frame_eq demo_frame_nonempty names xs records)
qed

text \<open>
  Claim C2.  When the image decodes and the detector returns the empty frame, the JSON
  endpoint answers with the one-field dictionary \<open>{"message": "No objects detected."}\<close>:
  the association list has this single key, so there is no \<open>detect_objects\<close> key.
\<close>

theorem json_empty_message:
  assumes "get_image_from_bytes lib file = Inr input_image"
      and "detect_sample_model g input_image = (calls, Inr [])"
  shows "snd (img_object_detection_to_json lib g file) =
           Inr [(''message'', JString ''No objects detected.'')]"
  using assms by (simp add: img_object_detection_to_json_def)

theorem json_empty_message_witness:
  "get_image_from_bytes demo_lib [1] = Inr demo_image \<and>
   detect_sample_model (app_globals (demo_model [])) demo_image =
     ([\<lparr>imgsz = 768, source = demo_image, conf = 1/2, save = False, augment = False,
        flipud = 0, fliplr = 0, mosaic = 0\<rparr>], Inr []) \<and>
   snd (img_object_detection_to_json demo_lib (app_globals (demo_model [])) [1]) =
     Inr [(''message'', JString ''No objects detected.'')]"
  using json_empty_message [of demo_lib "[1]" demo_image "app_globals (demo_model [])"]
  by (simp add: demo_decode demo_detect demo_no_boxes)

section \<open>Censoring\<close>

lemma censor_rows_no_method:
  "method \<noteq> ''blur'' \<Longrightarrow> method \<noteq> ''mask'' \<Longrightarrow> censor_rows lib method a rows = Inr a"
  by (induction rows) (simp_all add: censor_row_def Let_def)

lemma slice_bound_nonneg: "0 \<le> i \<Longrightarrow> slice_bound i n = min (nat i) n"
  by (simp add: slice_bound_def)

lemma in_slice_nonneg:
  "0 \<le> start \<Longrightarrow> 0 \<le> stop \<Longrightarrow> i < n \<Longrightarrow>
   in_slice start stop n i \<longleftrightarrow> start \<le> int i \<and> int i < stop"
  by (simp add: in_slice_def slice_bound_nonneg) linarith

lemma length_set_slice: "length (set_slice a y1 y2 x1 x2 v) = length a"
  by (simp add: set_slice_def)

lemma length_set_slice_row:
  "y < length a \<Longrightarrow> length (set_slice a y1 y2 x1 x2 v ! y) = length (a ! y)"
  by (simp add: set_slice_def)

lemma set_slice_nth:
  "y < length a \<Longrightarrow> x < length (a ! y) \<Longrightarrow>
   set_slice a y1 y2 x1 x2 v ! y ! x =
     (if in_slice y1 y2 (length a) y \<and> in_slice x1 x2 (length (a ! y)) x then v y x
      else a ! y ! x)"
  by (simp add: set_slice_def)

lemma censor_row_mask:
  "censor_row lib ''mask'' a d =
     Inr (set_slice a (py_int (ymin d)) (py_int (ymax d)) (py_int (xmin d)) (py_int (xmax d))
            (\<lambda>i j. (0, 0, 0)))"
  by (simp add: censor_row_def Let_def)

lemma mask_row_nth:
  assumes "nonneg_box d" and "y < length a" and "x < length (a ! y)"
  shows "set_slice a (py_int (ymin d)) (py_int (ymax d)) (py_int (xmin d)) (py_int (xmax d))
            (\<lambda>i j. (0, 0, 0)) ! y ! x =
         (if in_box d x y then (0, 0, 0) else a ! y ! x)"
  using assms
  by (simp add: set_slice_nth in_slice_nonneg nonneg_box_def in_box_def)

text \<open>The loop under \<open>mask\<close>, on the BGR array: it never fails, keeps the shape, and a
  pixel ends black exactly when some row's box holds it.\<close>

lemma censor_rows_mask:
  assumes "\<forall>d\<in>set rows. nonneg_box d"
  shows "\<exists>res. censor_rows lib ''mask'' a rows = Inr res \<and> length res = length a \<and>
           (\<forall>y<length a. length (res ! y) = length (a ! y) \<and>
              (\<forall>x<length (a ! y). res ! y ! x =
                 (if \<exists>d\<in>set rows. in_box d x y then (0, 0, 0) else a ! y ! x)))"
  using assms
proof (induction rows arbitrary: a)
  case Nil
  then show ?case by simp
next
  case (Cons d rows)
  let ?a' = "set_slice a (py_int (ymin d)) (py_int (ymax d)) (py_int (xmin d)) (py_int (xmax d))
            (\<lambda>i j. (0, 0, 0))"
  from Cons.prems have d: "nonneg_box d" and rest: "\<forall>d\<in>set rows. nonneg_box d" by simp_all
  from Cons.IH [OF rest, of ?a'] obtain res where
    res: "censor_rows lib ''mask'' ?a' rows = Inr res" "length res = length ?a'"
    and px: "\<And>y x. y < length ?a' \<Longrightarrow> length (res ! y) = length (?a' ! y) \<and>
              (x < length (?a' ! y) \<longrightarrow> res ! y ! x =
                 (if \<exists>d\<in>set rows. in_box d x y then (0, 0, 0) else ?a' ! y ! x))"
    by blast
  have "censor_rows lib ''mask'' a (d # rows) = Inr res"
    using res(1) by (simp add: censor_row_mask)
  moreover have "length res = length a"
    using res(2) by (simp add: length_set_slice)
  moreover have "length (res ! y) = length (a ! y) \<and>
              (\<forall>x<length (a ! y). res ! y ! x =
                 (if \<exists>d\<in>set (d # rows). in_box d x y then (0, 0, 0) else a ! y ! x))"
    if y: "y < length a" for y
  proof (intro conjI allI impI)
    from y have y': "y < length ?a'" by (simp add: length_set_slice)
    show len: "length (res ! y) = length (a ! y)"
      using px [OF y'] y by (simp add: length_set_slice_row)
    fix x assume x: "x < length (a ! y)"
    then have "x < length (?a' ! y)" using y by (simp add: length_set_slice_row)
    with px [OF y', of x] have
      "res ! y ! x = (if \<exists>d\<in>set rows. in_box d x y then (0, 0, 0) else ?a' ! y ! x)"
      by simp
    also have "?a' ! y ! x = (if in_box d x y then (0, 0, 0) else a ! y ! x)"
      using mask_row_nth [OF d y x] .
    finally show "res ! y ! x =
        (if \<exists>d\<in>set (d # rows). in_box d x y then (0, 0, 0) else a ! y ! x)"
      by simp
  qed
  ultimately show ?case by blast
qed

text \<open>A pixel whose unit cell lies within the float box lies in the truncated box.\<close>

lemma pixel_cell_in_box:
  assumes "0 \<le> xmin d" and "0 \<le> ymin d"
      and "xmin d \<le> real x" and "real x + 1 \<le> xmax d"
      and "ymin d \<le> real y" and "real y + 1 \<le> ymax d"
  shows "in_box d x y"
proof -
  have "0 \<le> xmax d" and "0 \<le> ymax d" using assms by linarith+
  moreover have "\<lfloor>xmin d\<rfloor> \<le> int x" and "\<lfloor>ymin d\<rfloor> \<le> int y"
    using assms(3,5) by (simp_all add: floor_le_iff)
  moreover have "int x < \<lfloor>xmax d\<rfloor>" and "int y < \<lfloor>ymax d\<rfloor>"
    using assms(4,6) by (simp_all add: less_floor_iff)
  ultimately show ?thesis using assms(1,2) by (simp add: in_box_def py_int_def)
qed

text \<open>
  Claim C3, as stated, at a concrete input.  The image is one row of four pixels and the
  box runs from column \<open>-2\<close> to column \<open>3\<close>.  Clipped to the image the box holds
  columns 0, 1 and 2, so pixel \<open>(0, 0)\<close> lies in it.  The slice \<open>-2:3\<close> of an axis of
  length 4 counts \<open>-2\<close> from the end and is column 2 alone: pixels 0 and 1 keep their
  values.
\<close>

theorem censor_mask_clipped_box_counterexample:
  "in_box \<lparr>xmin = - 2, ymin = 0, xmax = 3, ymax = 1, confidence = 9 / 10, cls = 0,
           name = StrCell ''person''\<rparr> 0 0 \<and>
   censor_objects demo_lib [[(1, 1, 1), (2, 2, 2), (3, 3, 3), (4, 4, 4)]]
     [\<lparr>xmin = - 2, ymin = 0, xmax = 3, ymax = 1, confidence = 9 / 10, cls = 0,
       name = StrCell ''person''\<rparr>] ''mask'' =
     Inr [[(1, 1, 1), (2, 2, 2), (0, 0, 0), (4, 4, 4)]]"
  by code_simp

text \<open>
  Claim C3, amended.  When no truncated coordinate of any detection is negative,
  censoring with \<open>mask\<close> succeeds and keeps the shape of the image, and every pixel
  \<open>(x, y)\<close> of the image is black if it lies in the truncated box of some detection and
  is the input pixel otherwise.  Boxes reaching past the right or bottom edge are
  clipped by the slice.
\<close>

theorem censor_mask_pixels:
  assumes "\<forall>d\<in>set predictions. nonneg_box d"
      and "y < length img" and "x < length (img ! y)"
  shows "\<exists>res. censor_objects lib img predictions ''mask'' = Inr res \<and>
           length res = length img \<and> length (res ! y) = length (img ! y) \<and>
           res ! y ! x = (if \<exists>d\<in>set predictions. in_box d x y then (0, 0, 0) else img ! y ! x)"
proof -
  let ?a = "reverse_channels img"
  from censor_rows_mask [OF assms(1), of lib ?a] obtain res where
    res: "censor_rows lib ''mask'' ?a predictions = Inr res" "length res = length ?a"
    and px: "\<And>y. y < length ?a \<Longrightarrow> length (res ! y) = length (?a ! y) \<and>
              (\<forall>x<length (?a ! y). res ! y ! x =
                 (if \<exists>d\<in>set predictions. in_box d x y then (0, 0, 0) else ?a ! y ! x))"
    by blast
  from assms(2) have y: "y < length ?a" by (simp add: length_reverse_channels)
  have row: "?a ! y = map (\<lambda>(c0, c1, c2). (c2, c1, c0)) (img ! y)"
    using assms(2) by (rule reverse_channels_nth)
  have len: "length (res ! y) = length (img ! y)"
    using px [OF y] row by simp
  have val: "res ! y ! x =
      (if \<exists>d\<in>set predictions. in_box d x y then (0, 0, 0)
       else (\<lambda>(c0, c1, c2). (c2, c1, c0)) (img ! y ! x))"
    using px [OF y] row assms(3) by simp
  have yres: "y < length res" using res(2) y by simp
  have "censor_objects lib img predictions ''mask'' = Inr (reverse_channels res)"
    using res(1) by (simp add: censor_objects_def)
  moreover have "length (reverse_channels res) = length img"
    using res(2) by (simp add: length_reverse_channels)
  moreover have "length (reverse_channels res ! y) = length (img ! y)"
    using len yres by (simp add: reverse_channels_nth)
  moreover have "reverse_channels res ! y ! x =
      (if \<exists>d\<in>set predictions. in_box d x y then (0, 0, 0) else img ! y ! x)"
    using val len yres assms(3) by (simp add: reverse_channels_nth split_beta)
  ultimately show ?thesis by blast
qed

text \<open>The theorem at the concrete frame: pixel \<open>(2, 0)\<close> lies in the first box and turns
  black, pixel \<open>(2, 2)\<close> lies in neither box and keeps its value.\<close>

theorem censor_mask_pixels_witness:
  "list_all nonneg_box demo_frame \<and>
   0 < length demo_image \<and> 2 < length (demo_image ! 0) \<and>
   2 < length demo_image \<and> 2 < length (demo_image ! 2) \<and>
   (\<exists>res. censor_objects demo_lib demo_image demo_frame ''mask'' = Inr res \<and>
          length res = 3 \<and> length (res ! 0) = 4 \<and> res ! 0 ! 2 = (0, 0, 0)) \<and>
   (\<exists>res. censor_objects demo_lib demo_image demo_frame ''mask'' = Inr res \<and>
          length res = 3 \<and> length (res ! 2) = 4 \<and> res ! 2 ! 2 = (31, 32, 33))"
proof -
  have boxes: "\<forall>d\<in>set demo_frame. nonneg_box d"
    by (simp add: demo_frame_def nonneg_box_def py_int_def)
  have shape: "length demo_image = 3" "length (demo_image ! 0) = 4"
    "length (demo_image ! 2) = 4"
    by (simp_all add: demo_image_def)
  have inside: "\<exists>d\<in>set demo_frame. in_box d 2 0"
    by (simp add: demo_frame_def in_box_def py_int_def)
  have outside: "\<not> (\<exists>d\<in>set demo_frame. in_box d 2 2)"
    by (simp add: demo_frame_def in_box_def py_int_def)
  have old: "demo_image ! 2 ! 2 = (31, 32, 33)"
    by (simp add: demo_image_def)
  from shape have y0: "0 < length demo_image" and x0: "2 < length (demo_image ! 0)"
    and y2: "2 < length demo_image" and x2: "2 < length (demo_image ! 2)" by simp_all
  show ?thesis
    using censor_mask_pixels [OF boxes y0 x0, of demo_lib]
      censor_mask_pixels [OF boxes y2 x2, of demo_lib]
      boxes
    by (simp add: shape inside outside old list_all_iff)
qed

text \<open>
  Claim C4.  With a method string that is neither \<open>blur\<close> nor \<open>mask\<close>, \<open>censor_objects\<close>
  raises nothing and returns the input image unchanged, whatever the detections are:
  both branches of the loop body are skipped for every row.
\<close>

theorem censor_unknown_method_identity:
  assumes "method \<noteq> ''blur''" and "method \<noteq> ''mask''"
  shows "censor_objects lib img predictions method = Inr img"
  using assms by (simp add: censor_objects_def censor_rows_no_method reverse_channels_twice)

theorem censor_unknown_method_identity_witness:
  "''pixelate'' \<noteq> ''blur'' \<and> ''pixelate'' \<noteq> ''mask'' \<and> demo_frame \<noteq> [] \<and>
   censor_objects demo_lib demo_image demo_frame ''pixelate'' = Inr demo_image"
  using censor_unknown_method_identity [of "''pixelate''" demo_lib demo_image demo_frame]
  by (simp add: demo_frame_nonempty)

text \<open>
  Claim C8.  On the empty frame \<open>censor_objects\<close> returns the input image, for every
  method: the loop body never runs and the two channel reversals cancel.
\<close>

theorem censor_empty_identity:
  "censor_objects lib img [] method = Inr img"
  by (simp add: censor_objects_def reverse_channels_twice)

section \<open>Censored-image mode\<close>

lemma demo_blur:
  "censor_objects demo_lib demo_image demo_frame ''blur'' =
     Inr [[(1, 2, 3), (4, 5, 6), (7, 7, 7), (7, 7, 7)],
          [(7, 7, 7), (16, 17, 18), (7, 7, 7), (7, 7, 7)],
          [(7, 7, 7), (28, 29, 30), (31, 32, 33), (34, 35, 36)]]"
  by code_simp

text \<open>
  Claim C5.  When the image decodes and the detector returns a frame, the censored-image
  endpoint does one of two things.  On the empty frame it draws the banner: the text
  \<open>NO OBJECTS DETECTED.\<close> in black at the twenty outline positions around \<open>(20, 20)\<close>,
  then in orange at \<open>(20, 20)\<close>, and answers with the JPEG encoding (or with the failure
  of loading the font); this is the very response of the annotated-image endpoint on
  the same request.  On a non-empty frame it answers with the JPEG encoding of
  \<open>censor_objects\<close> run with the method \<open>blur\<close> (or with the failure of that run); no
  other method is passed.
\<close>

theorem censored_mode_banner_or_blur:
  assumes "get_image_from_bytes lib file = Inr input_image"
      and "detect_sample_model g input_image = (calls, Inr predict)"
  shows "img_object_detection_to_censored_img lib g file =
           (calls,
            if predict = [] then
              (case truetype lib ''arial.ttf'' 15 of
                 Inl e \<Rightarrow> Inl e
               | Inr font \<Rightarrow>
                   Inr \<lparr>content = get_bytes_from_image lib
                          (draw_text lib
                             (foldl (\<lambda>draw pos. draw_text lib draw pos ''NO OBJECTS DETECTED.''
                                        font (FillName ''black''))
                                input_image
                                [(18, 20), (20, 18), (18, 18), (22, 22),
                                 (19, 20), (20, 19), (19, 19), (21, 21),
                                 (20, 20), (20, 20), (20, 20), (20, 20),
                                 (21, 20), (20, 21), (21, 21), (19, 19),
                                 (22, 20), (20, 22), (22, 22), (18, 18)])
                             (20, 20) ''NO OBJECTS DETECTED.'' font (FillRGB (255, 165, 0))),
                        media_type = ''image/jpeg''\<rparr>)
            else
              (case censor_objects lib input_image predict ''blur'' of
                 Inl e \<Rightarrow> Inl e
               | Inr censored_image \<Rightarrow>
                   Inr \<lparr>content = get_bytes_from_image lib censored_image,
                        media_type = ''image/jpeg''\<rparr>)) \<and>
         (predict = [] \<longrightarrow>
            img_object_detection_to_censored_img lib g file =
              img_object_detection_to_img lib g file)"
  using assms
  by (simp add: img_object_detection_to_censored_img_def img_object_detection_to_img_def
        Let_def split: sum.splits)

text \<open>The theorem at both kinds of request: a model that detects nothing, and the model
  of the two boxes, whose regions the concrete blur paints with the value 7.\<close>

theorem censored_mode_banner_or_blur_witness:
  "get_image_from_bytes demo_lib [1] = Inr demo_image \<and>
   detect_sample_model (app_globals (demo_model [])) demo_image =
     ([\<lparr>imgsz = 768, source = demo_image, conf = 1/2, save = False, augment = False,
        flipud = 0, fliplr = 0, mosaic = 0\<rparr>], Inr []) \<and>
   detect_sample_model (app_globals (demo_model demo_boxes)) demo_image =
     ([\<lparr>imgsz = 768, source = demo_image, conf = 1/2, save = False, augment = False,
        flipud = 0, fliplr = 0, mosaic = 0\<rparr>], Inr demo_frame) \<and>
   img_object_detection_to_censored_img demo_lib (app_globals (demo_model [])) [1] =
     img_object_detection_to_img demo_lib (app_globals (demo_model [])) [1] \<and>
   img_object_detection_to_censored_img demo_lib (app_globals (demo_model [])) [1] =
     ([\<lparr>imgsz = 768, source = demo_image, conf = 1/2, save = False, augment = False,
        flipud = 0, fliplr = 0, mosaic = 0\<rparr>],
      Inr \<lparr>content = [1, 4, 7, 10, 13, 16, 19, 22, 25, 28, 31, 34],
           media_type = ''image/jpeg''\<rparr>) \<and>
   img_object_detection_to_censored_img demo_lib (app_globals (demo_model demo_boxes)) [1] =
     ([\<lparr>imgsz = 768, source = demo_image, conf = 1/2, save = False, augment = False,
        flipud = 0, fliplr = 0, mosaic = 0\<rparr>],
      Inr \<lparr>content = [1, 4, 7, 7, 7, 16, 7, 7, 7, 28, 31, 34], media_type = ''image/jpeg''\<rparr>)"
proof -
  have enc: "get_bytes_from_image demo_lib
      [[(1, 2, 3), (4, 5, 6), (7, 7, 7), (7, 7, 7)],
       [(7, 7, 7), (16, 17, 18), (7, 7, 7), (7, 7, 7)],
       [(7, 7, 7), (28, 29, 30), (31, 32, 33), (34, 35, 36)]] =
      [1, 4, 7, 7, 7, 16, 7, 7, 7, 28, 31, 34]"
    by (simp add: get_bytes_from_image_def demo_lib_def)
  have font: "truetype demo_lib ''arial.ttf'' 15 = Inr (''arial.ttf'', 15)"
    and draw: "\<And>im pos txt fnt fl. draw_text demo_lib im pos txt fnt fl = im"
    by (simp_all add: demo_lib_def)
  have enc0: "get_bytes_from_image demo_lib demo_image =
      [1, 4, 7, 10, 13, 16, 19, 22, 25, 28, 31, 34]"
    by (simp add: get_bytes_from_image_def demo_lib_def demo_image_def)
  show ?thesis
    using censored_mode_banner_or_blur [of demo_lib "[1]" demo_image
        "app_globals (demo_model [])" _ "[]"]
      censored_mode_banner_or_blur [of demo_lib "[1]" demo_image
        "app_globals (demo_model demo_boxes)" _ demo_frame]
    by (auto simp add: demo_decode demo_detect demo_frame_eq demo_no_boxes demo_frame_nonempty
          demo_blur enc font draw enc0)
qed

section \<open>Annotation\<close>

lemma digit_char_value: "d < 10 \<Longrightarrow> of_char (''0123456789'' ! d) - 48 = (d::nat)"
proof -
  assume "d < 10"
  then consider "d = 0" | "d = 1" | "d = 2" | "d = 3" | "d = 4" | "d = 5" | "d = 6"
    | "d = 7" | "d = 8" | "d = 9" by atomize_elim arith
  then show ?thesis by cases simp_all
qed

lemma decimal_value_snoc: "decimal_value (s @ [c]) = 10 * decimal_value s + (of_char c - 48)"
  by (simp add: decimal_value_def)

text \<open>\<open>str_nat\<close> prints the decimal numeral of its argument.\<close>

lemma decimal_value_str_nat: "decimal_value (str_nat n) = n"
proof (induction n rule: str_nat.induct)
  case (1 n)
  show ?case
  proof (cases "n < 10")
    case True
    then show ?thesis
      by (subst str_nat.simps) (simp add: decimal_value_def digit_char_value)
  next
    case False
    with 1 have "decimal_value (str_nat (n div 10)) = n div 10" by simp
    with False show ?thesis
      by (subst str_nat.simps) (simp add: decimal_value_snoc digit_char_value)
  qed
qed

lemma str_nat_56: "str_nat 56 = ''56''"
  by code_simp

lemma str_nat_57: "str_nat 57 = ''57''"
  by code_simp

text \<open>
  Claim C6, as stated, at a concrete input.  For the class name \<open>car\<close> and the confidence
  0.567 the percentage is 56.7: the source prints \<open>car: 56%\<close>, the label with the
  percentage rounded to the nearest integer is \<open>car: 57%\<close>.
\<close>

theorem label_text_rounding_counterexample:
  "label_text \<lparr>xmin = 2, ymin = 0, xmax = 4, ymax = 2, confidence = 567 / 1000, cls = 1,
               name = StrCell ''car''\<rparr> = ''car: 56%'' \<and>
   label_text_rounded \<lparr>xmin = 2, ymin = 0, xmax = 4, ymax = 2, confidence = 567 / 1000, cls = 1,
               name = StrCell ''car''\<rparr> = ''car: 57%''"
  by (simp add: label_text_def label_text_rounded_def str_cell_def py_int_def str_int_def
        round_def str_nat_56 str_nat_57)

text \<open>
  Claim C6, amended.  For a detection with class name \<open>n\<close> and a confidence that is not
  negative, the label is \<open>n\<close>, a colon and a space, the decimal numeral of an integer
  \<open>k\<close>, and a percent sign, where \<open>k\<close> is the percentage truncated to an integer:
  \<open>k \<le> confidence * 100 < k + 1\<close>.
\<close>

theorem label_text_truncates:
  assumes "name row = StrCell n" and "0 \<le> confidence row"
  shows "\<exists>k::nat. label_text row = n @ '': '' @ str_nat k @ ''%'' \<and>
           decimal_value (str_nat k) = k \<and>
           real k \<le> confidence row * 100 \<and> confidence row * 100 < real k + 1"
proof -
  let ?k = "nat \<lfloor>confidence row * 100\<rfloor>"
  from assms(2) have nn: "0 \<le> \<lfloor>confidence row * 100\<rfloor>" by simp
  from assms nn have "label_text row = n @ '': '' @ str_nat ?k @ ''%''"
    by (simp add: label_text_def str_cell_def py_int_def str_int_def)
  moreover have "real ?k \<le> confidence row * 100" using nn by simp
  moreover have "confidence row * 100 < real ?k + 1" using nn by simp
  ultimately show ?thesis using decimal_value_str_nat by blast
qed

theorem label_text_truncates_witness:
  "name \<lparr>xmin = 2, ymin = 0, xmax = 4, ymax = 2, confidence = 567 / 1000, cls = 1,
               name = StrCell ''car''\<rparr> = StrCell ''car'' \<and>
   (0::real) \<le> 567 / 1000 \<and>
   (\<exists>k::nat. label_text \<lparr>xmin = 2, ymin = 0, xmax = 4, ymax = 2, confidence = 567 / 1000,
                 cls = 1, name = StrCell ''car''\<rparr> = ''car: '' @ str_nat k @ ''%'' \<and>
           decimal_value (str_nat k) = k \<and> real k \<le> 567 / 1000 * 100 \<and>
           567 / 1000 * 100 < real k + 1)"
  using label_text_truncates [of "\<lparr>xmin = 2, ymin = 0, xmax = 4, ymax = 2,
      confidence = 567 / 1000, cls = 1, name = StrCell ''car''\<rparr>" "''car''"]
  by simp

text \<open>
  Claim C7.  Let the library sort do what \<open>sort_values(by=['xmin'], ascending=True)\<close>
  promises on the frame.  Then the \<open>box_label\<close> calls of \<open>add_bboxs_on_img\<close> come in
  ascending order of \<open>xmin\<close>: the boxes' \<open>xmin\<close> values, call by call, are the sorted
  \<open>xmin\<close> column, whatever the routine does with equal keys.  There is exactly one call
  per detection, with the box, label and colour of that detection, and the returned
  image is the result of these calls applied in that order to the input image.  The
  calls and the image depend on nothing but the image, the frame and three library
  operations (the sort of this frame, the colour table, the drawing of one box): two
  runs in which these agree make the same calls in the same order and return the same
  image.
\<close>

theorem draw_order_ascending_xmin:
  assumes "sorts_by_xmin predict (sort_values lib predict [''xmin''] True)"
  shows "sorted (map (\<lambda>(bbox, text, color). fst bbox) (box_label_calls lib predict)) \<and>
         map (\<lambda>(bbox, text, color). fst bbox) (box_label_calls lib predict) =
           sort (map xmin predict) \<and>
         mset (box_label_calls lib predict) =
           mset (map (\<lambda>row. ((xmin row, ymin row, xmax row, ymax row),
                              label_text row, colors lib (cls row) True)) predict) \<and>
         add_bboxs_on_img lib img predict =
           foldl (\<lambda>annotator (bbox, text, color). box_label lib annotator bbox text color)
             img (box_label_calls lib predict) \<and>
         (sort_values lib' predict [''xmin''] True = sort_values lib predict [''xmin''] True \<and>
          colors lib' = colors lib \<and> box_label lib' = box_label lib \<longrightarrow>
            box_label_calls lib' predict = box_label_calls lib predict \<and>
            add_bboxs_on_img lib' img predict = add_bboxs_on_img lib img predict)"
proof -
  let ?rows = "sort_values lib predict [''xmin''] True"
  from assms have same: "mset ?rows = mset predict" and asc: "sorted (map xmin ?rows)"
    by (simp_all add: sorts_by_xmin_def)
  have keys: "map (\<lambda>(bbox, text, color). fst bbox) (box_label_calls lib predict) = map xmin ?rows"
    by (simp add: box_label_calls_def comp_def)
  have "mset (map xmin ?rows) = mset (map xmin predict)"
    using same by simp
  then have unique: "sort (map xmin predict) = map xmin ?rows"
    using asc by (rule properties_for_sort)
  have calls: "mset (box_label_calls lib predict) =
           mset (map (\<lambda>row. ((xmin row, ymin row, xmax row, ymax row),
                              label_text row, colors lib (cls row) True)) predict)"
    using same by (simp add: box_label_calls_def)
  have run: "add_bboxs_on_img lib img predict =
           foldl (\<lambda>annotator (bbox, text, color). box_label lib annotator bbox text color)
             img (box_label_calls lib predict)"
    by (simp add: add_bboxs_on_img_def)
  have again: "box_label_calls lib' predict = box_label_calls lib predict \<and>
            add_bboxs_on_img lib' img predict = add_bboxs_on_img lib img predict"
    if "sort_values lib' predict [''xmin''] True = sort_values lib predict [''xmin''] True"
      and "colors lib' = colors lib" and "box_label lib' = box_label lib"
    using that by (simp add: add_bboxs_on_img_def box_label_calls_def)
  from keys asc unique calls run again show ?thesis by simp
qed

text \<open>The theorem at the frame with two detections on the left edge and the library
  whose sort reverses equal keys: the third detection is drawn first, which is not the
  order a stable sort gives.  The second library differs from the first in an
  operation that drawing does not use.\<close>

theorem draw_order_ascending_xmin_witness:
  "sorts_by_xmin demo_ties (sort_values demo_lib demo_ties [''xmin''] True) \<and>
   sort_values demo_lib demo_ties [''xmin''] True \<noteq> sort_key xmin demo_ties \<and>
   map (\<lambda>(bbox, text, color). bbox) (box_label_calls demo_lib demo_ties) =
     [(0, 2, 1, 3), (0, 0, 1, 1), (2, 0, 4, 2)] \<and>
   sorted (map (\<lambda>(bbox, text, color). fst bbox) (box_label_calls demo_lib demo_ties)) \<and>
   map (\<lambda>(bbox, text, color). fst bbox) (box_label_calls demo_lib demo_ties) =
     sort (map xmin demo_ties) \<and>
   sort_values (demo_lib\<lparr>json_float := (\<lambda>x. 0)\<rparr>) demo_ties [''xmin''] True =
     sort_values demo_lib demo_ties [''xmin''] True \<and>
   colors (demo_lib\<lparr>json_float := (\<lambda>x. 0)\<rparr>) = colors demo_lib \<and>
   box_label (demo_lib\<lparr>json_float := (\<lambda>x. 0)\<rparr>) = box_label demo_lib \<and>
   box_label_calls (demo_lib\<lparr>json_float := (\<lambda>x. 0)\<rparr>) demo_ties =
     box_label_calls demo_lib demo_ties \<and>
   add_bboxs_on_img (demo_lib\<lparr>json_float := (\<lambda>x. 0)\<rparr>) demo_image demo_ties =
     add_bboxs_on_img demo_lib demo_image demo_ties"
proof -
  have rows: "sort_values demo_lib demo_ties [''xmin''] True =
      [\<lparr>xmin = 0, ymin = 2, xmax = 1, ymax = 3, confidence = 8 / 10, cls = 0,
        name = StrCell ''person''\<rparr>,
       \<lparr>xmin = 0, ymin = 0, xmax = 1, ymax = 1, confidence = 92 / 100, cls = 0,
        name = StrCell ''person''\<rparr>,
       \<lparr>xmin = 2, ymin = 0, xmax = 4, ymax = 2, confidence = 567 / 1000, cls = 1,
        name = StrCell ''car''\<rparr>]"
    by (simp add: demo_lib_def demo_ties_def)
  have stable: "sort_key xmin demo_ties =
      [\<lparr>xmin = 0, ymin = 0, xmax = 1, ymax = 1, confidence = 92 / 100, cls = 0,
        name = StrCell ''person''\<rparr>,
       \<lparr>xmin = 0, ymin = 2, xmax = 1, ymax = 3, confidence = 8 / 10, cls = 0,
        name = StrCell ''person''\<rparr>,
       \<lparr>xmin = 2, ymin = 0, xmax = 4, ymax = 2, confidence = 567 / 1000, cls = 1,
        name = StrCell ''car''\<rparr>]"
    by (simp add: demo_ties_def)
  have contract: "sorts_by_xmin demo_ties (sort_values demo_lib demo_ties [''xmin''] True)"
    by (simp add: rows sorts_by_xmin_def) (simp add: demo_ties_def)
  have unstable: "sort_values demo_lib demo_ties [''xmin''] True \<noteq> sort_key xmin demo_ties"
    by (simp add: rows stable)
  have boxes: "map (\<lambda>(bbox, text, color). bbox) (box_label_calls demo_lib demo_ties) =
     [(0, 2, 1, 3), (0, 0, 1, 1), (2, 0, 4, 2)]"
    by (simp add: box_label_calls_def rows)
  have other: "sort_values (demo_lib\<lparr>json_float := (\<lambda>x. 0)\<rparr>) demo_ties [''xmin''] True =
     sort_values demo_lib demo_ties [''xmin''] True"
    "colors (demo_lib\<lparr>json_float := (\<lambda>x. 0)\<rparr>) = colors demo_lib"
    "box_label (demo_lib\<lparr>json_float := (\<lambda>x. 0)\<rparr>) = box_label demo_lib"
    by simp_all
  show ?thesis
    using draw_order_ascending_xmin [OF contract,
        where lib' = "demo_lib\<lparr>json_float := (\<lambda>x. 0)\<rparr>" and img = demo_image]
      contract unstable boxes other
    by simp
qed

section \<open>The models\<close>

text \<open>
  Claim C9.  Each of the three endpoints calls \<open>model.predict\<close> exactly once when the
  upload decodes (and not at all when it does not), with \<open>imgsz = 768\<close>,
  \<open>conf = 0.5\<close>, \<open>augment = False\<close> and \<open>save = False\<close>; the model called is the
  one bound to \<open>model_sample_detect\<close>.
\<close>

theorem detect_model_call_arguments:
  "fst (img_object_detection_to_json lib (app_globals m) file) =
     (case get_image_from_bytes lib file of
        Inl e \<Rightarrow> []
      | Inr input_image \<Rightarrow>
          [\<lparr>imgsz = 768, source = input_image, conf = 1/2, save = False, augment = False,
            flipud = 0, fliplr = 0, mosaic = 0\<rparr>]) \<and>
   fst (img_object_detection_to_img lib (app_globals m) file) =
     (case get_image_from_bytes lib file of
        Inl e \<Rightarrow> []
      | Inr input_image \<Rightarrow>
          [\<lparr>imgsz = 768, source = input_image, conf = 1/2, save = False, augment = False,
            flipud = 0, fliplr = 0, mosaic = 0\<rparr>]) \<and>
   fst (img_object_detection_to_censored_img lib (app_globals m) file) =
     (case get_image_from_bytes lib file of
        Inl e \<Rightarrow> []
      | Inr input_image \<Rightarrow>
          [\<lparr>imgsz = 768, source = input_image, conf = 1/2, save = False, augment = False,
            flipud = 0, fliplr = 0, mosaic = 0\<rparr>]) \<and>
   detect_sample_model (app_globals m) img =
     ([\<lparr>imgsz = 768, source = img, conf = 1/2, save = False, augment = False,
        flipud = 0, fliplr = 0, mosaic = 0\<rparr>],
      case yolo_predict m \<lparr>imgsz = 768, source = img, conf = 1/2, save = False,
                            augment = False, flipud = 0, fliplr = 0, mosaic = 0\<rparr> of
        Inl e \<Rightarrow> Inl e
      | Inr predictions \<Rightarrow> Inr (transform_predict_to_df predictions (yolo_names m)))"
proof (intro conjI)
  show "fst (img_object_detection_to_json lib (app_globals m) file) =
     (case get_image_from_bytes lib file of
        Inl e \<Rightarrow> []
      | Inr input_image \<Rightarrow>
          [\<lparr>imgsz = 768, source = input_image, conf = 1/2, save = False, augment = False,
            flipud = 0, fliplr = 0, mosaic = 0\<rparr>])"
    by (simp add: img_object_detection_to_json_def detect_sample_model_app
          get_model_predict_def Let_def split: sum.splits)
  show "fst (img_object_detection_to_img lib (app_globals m) file) =
     (case get_image_from_bytes lib file of
        Inl e \<Rightarrow> []
      | Inr input_image \<Rightarrow>
          [\<lparr>imgsz = 768, source = input_image, conf = 1/2, save = False, augment = False,
            flipud = 0, fliplr = 0, mosaic = 0\<rparr>])"
    by (simp add: img_object_detection_to_img_def detect_sample_model_app
          get_model_predict_def Let_def split: sum.splits)
  show "fst (img_object_detection_to_censored_img lib (app_globals m) file) =
     (case get_image_from_bytes lib file of
        Inl e \<Rightarrow> []
      | Inr input_image \<Rightarrow>
          [\<lparr>imgsz = 768, source = input_image, conf = 1/2, save = False, augment = False,
            flipud = 0, fliplr = 0, mosaic = 0\<rparr>])"
    by (simp add: img_object_detection_to_censored_img_def detect_sample_model_app
          get_model_predict_def Let_def split: sum.splits)
  show "detect_sample_model (app_globals m) img =
     ([\<lparr>imgsz = 768, source = img, conf = 1/2, save = False, augment = False,
        flipud = 0, fliplr = 0, mosaic = 0\<rparr>],
      case yolo_predict m \<lparr>imgsz = 768, source = img, conf = 1/2, save = False,
                            augment = False, flipud = 0, fliplr = 0, mosaic = 0\<rparr> of
        Inl e \<Rightarrow> Inl e
      | Inr predictions \<Rightarrow> Inr (transform_predict_to_df predictions (yolo_names m)))"
    by (simp add: detect_sample_model_app get_model_predict_def Let_def)
qed

text \<open>
  Claim C10.  In the namespace of \<^verbatim>\<open>app.py\<close> the name \<open>model_sample_segment\<close> is not
  bound, whatever model \<open>model_sample_detect\<close> holds.  \<open>segment_sample_model\<close> therefore
  fails with \<open>NameError\<close> on every image, before any call of \<open>predict\<close>.
\<close>

theorem segment_sample_model_name_error:
  "segment_sample_model (app_globals m) input_image =
     ([], Inl (NameError ''model_sample_segment''))"
  by (simp add: segment_sample_model_def load_global_def app_globals_def)

end
